theory Spec2Isabelle
  imports Complex_Main
begin

section \<open>The session singleton (app/src/js/common/session.ts)\<close>

text \<open>
  Only the keyboard part of the \<open>Session\<close> class is embedded: the connection status, the
  key-down map and the three methods \<open>onKeyDown\<close>, \<open>onKeyUp\<close>, \<open>isKeyDown\<close>.
  The key-down map is a JavaScript object used as a dictionary, here a partial map; a
  missing property reads as \<open>undefined\<close>, here \<open>None\<close>. The callback is supplied by the
  caller and is opaque: its invocation is recorded, in order, in \<open>invoked\<close>.
\<close>

datatype ConnectionStatus = SAVED | SAVING | RECONNECTING | UNSAVED

record KeyboardEvent =
  key :: string

record 'cb Session =
  status :: ConnectionStatus
  keyDownMap :: "string \<rightharpoonup> bool"
  invoked :: "('cb \<times> KeyboardEvent) list"

definition Session_onKeyDown :: "KeyboardEvent \<Rightarrow> 'cb \<Rightarrow> 'cb Session \<Rightarrow> 'cb Session" where
  "Session_onKeyDown e callback s =
     (if status s = RECONNECTING then s
      else s\<lparr>keyDownMap := (keyDownMap s)(key e \<mapsto> True),
             invoked := invoked s @ [(callback, e)]\<rparr>)"

definition Session_onKeyUp :: "KeyboardEvent \<Rightarrow> 'cb \<Rightarrow> 'cb Session \<Rightarrow> 'cb Session" where
  "Session_onKeyUp e callback s =
     s\<lparr>keyDownMap := (keyDownMap s)(key e := None),
       invoked := invoked s @ [(callback, e)]\<rparr>"

text \<open>\<open>isKeyDown\<close> returns the stored value, \<open>undefined\<close> (\<open>None\<close>) for a key not in the map.\<close>

definition Session_isKeyDown :: "string \<Rightarrow> 'cb Session \<Rightarrow> bool option" where
  "Session_isKeyDown k s = keyDownMap s k"

text \<open>JavaScript truthiness of what \<open>isKeyDown\<close> returns.\<close>

definition truthy :: "bool option \<Rightarrow> bool" where
  "truthy r = (r = Some True)"

section \<open>The application state snapshot read by the viewer\<close>

text \<open>
  JavaScript numbers are idealised: identifiers and indices are integers, coordinates and
  camera parameters are reals.
\<close>

record Vector3 =
  vx :: real
  vy :: real
  vz :: real

record Quaternion =
  qx :: real
  qy :: real
  qz :: real
  qw :: real

text \<open>
  Modelled from the spec: the viewer configuration types (common/types, functional/types)
  are not part of the sources; a configuration names a sensor, carries a type tag (the code
  distinguishes \<open>POINT_CLOUD\<close> and \<open>IMAGE_3D\<close> from everything else) and a view scale.
\<close>

datatype ViewerConfigTypeName = POINT_CLOUD | IMAGE_3D | OTHER_TYPE string

record ViewerConfigType =
  vc_type :: ViewerConfigTypeName
  vc_sensor :: int
  viewScale :: real

text \<open>
  Modelled from the spec: a sensor has optional intrinsics (focal length, principal point)
  and optional extrinsics (a rotation quaternion and a translation).
\<close>

record IntrinsicsType =
  focalLength :: "real \<times> real"
  focalCenter :: "real \<times> real"

record ExtrinsicsType =
  rotation :: Quaternion
  translation :: Vector3

record SensorType =
  intrinsics :: "IntrinsicsType option"
  extrinsics :: "ExtrinsicsType option"

record LabelType =
  label_sensors :: "int list"

record ItemType =
  labels :: "(int \<times> LabelType) list"

text \<open>
  Dictionaries keyed by number are association lists (the keys of a JavaScript object are
  distinct; \<open>map_of\<close> is the lookup). The field \<open>loadedSensors\<close> stands for the predicate
  \<open>isCurrentFrameLoaded\<close>.
\<close>

record State =
  viewerConfigs :: "(int \<times> ViewerConfigType) list"
  sensors :: "(int \<times> SensorType) list"
  items :: "ItemType list"
  select_item :: int
  loadedSensors :: "int list"

text \<open>
  Modelled from the spec: \<open>isCurrentFrameLoaded\<close> (functional/state_util) is not part of the
  sources; the snapshot carries the predicate "the current frame is loaded for sensor S".
\<close>

definition isCurrentFrameLoaded :: "State \<Rightarrow> int \<Rightarrow> bool" where
  "isCurrentFrameLoaded st s = (s \<in> set (loadedSensors st))"

text \<open>
  Modelled from the spec: \<open>getCurrentViewerConfig\<close> (functional/state_util) is not part of
  the sources; it reads the per-viewer configuration of the snapshot by viewer id.
\<close>

definition getCurrentViewerConfig :: "State \<Rightarrow> int \<Rightarrow> ViewerConfigType option" where
  "getCurrentViewerConfig st i = map_of (viewerConfigs st) i"

text \<open>Array indexing: an index outside the array reads \<open>undefined\<close>.\<close>

definition array_at :: "'a list \<Rightarrow> int \<Rightarrow> 'a option" where
  "array_at xs i = (if 0 \<le> i \<and> i < int (length xs) then Some (xs ! nat i) else None)"

section \<open>Cameras, quaternions and the raycaster (the parts of three.js the viewer drives)\<close>

text \<open>
  A layer channel is the argument handed to \<open>layers.set\<close>: \<open>id - Math.min(...keys)\<close>.
  \<open>Math.min()\<close> of no arguments is \<open>Infinity\<close>, so the difference is \<open>-Infinity\<close> then.
\<close>

datatype channel = Channel int | NegInfinity

fun Math_min :: "int list \<Rightarrow> int option" where
  "Math_min [] = None"
| "Math_min (x # xs) = Some (fold min xs x)"

definition layerChannel :: "int \<Rightarrow> int list \<Rightarrow> channel" where
  "layerChannel i ks = (case Math_min ks of None \<Rightarrow> NegInfinity | Some m \<Rightarrow> Channel (i - m))"

datatype camera_kind =
    PerspectiveCamera real real real real
  | IntrinsicCamera IntrinsicsType real real

text \<open>
  A camera object: its projection, its pose and the layer channel last set on it. A newly
  constructed camera sits at the origin with the identity orientation on layer 0.
\<close>

record Camera =
  kind :: camera_kind
  position :: Vector3
  quaternion :: Quaternion
  layers :: channel

definition new_Camera :: "camera_kind \<Rightarrow> Camera" where
  "new_Camera k =
     \<lparr>kind = k, position = \<lparr>vx = 0, vy = 0, vz = 0\<rparr>,
      quaternion = \<lparr>qx = 0, qy = 0, qz = 0, qw = 1\<rparr>, layers = Channel 0\<rparr>"

definition position_set :: "real \<Rightarrow> real \<Rightarrow> real \<Rightarrow> Camera \<Rightarrow> Camera" where
  "position_set x y z c = c\<lparr>position := \<lparr>vx = x, vy = y, vz = z\<rparr>\<rparr>"

definition quaternion_set :: "real \<Rightarrow> real \<Rightarrow> real \<Rightarrow> real \<Rightarrow> Camera \<Rightarrow> Camera" where
  "quaternion_set x y z w c = c\<lparr>quaternion := \<lparr>qx = x, qy = y, qz = z, qw = w\<rparr>\<rparr>"

text \<open>\<open>Quaternion.setFromAxisAngle\<close> and \<open>Quaternion.multiply\<close> of three.js (\<open>a.multiply(b)\<close> is the product \<open>a b\<close>).\<close>

definition setFromAxisAngle :: "Vector3 \<Rightarrow> real \<Rightarrow> Quaternion" where
  "setFromAxisAngle axis angle =
     (let halfAngle = angle / 2; s = sin halfAngle
      in \<lparr>qx = vx axis * s, qy = vy axis * s, qz = vz axis * s, qw = cos halfAngle\<rparr>)"

definition multiplyQuaternions :: "Quaternion \<Rightarrow> Quaternion \<Rightarrow> Quaternion" where
  "multiplyQuaternions a b =
     \<lparr>qx = qx a * qw b + qw a * qx b + qy a * qz b - qz a * qy b,
      qy = qy a * qw b + qw a * qy b + qz a * qx b - qx a * qz b,
      qz = qz a * qw b + qw a * qz b + qx a * qy b - qy a * qx b,
      qw = qw a * qw b - qx a * qx b - qy a * qy b - qz a * qz b\<rparr>"

definition quaternion_multiply :: "Quaternion \<Rightarrow> Camera \<Rightarrow> Camera" where
  "quaternion_multiply q c = c\<lparr>quaternion := multiplyQuaternions (quaternion c) q\<rparr>"

record Raycaster =
  near :: real
  far :: real
  linePrecision :: real

type_synonym shape = nat

record Intersection =
  distance :: real
  hit_object :: shape

section \<open>The viewer canvas (Label3dCanvas)\<close>

record HTMLCanvasElement =
  rect_left :: real
  rect_top :: real
  canvas_width :: real
  canvas_height :: real

type_synonym HTMLDivElement = nat

record MouseEvent =
  clientX :: real
  clientY :: real

record HTMLImageElement =
  image_width :: real
  image_height :: real

text \<open>The calls the viewer makes on its Interaction Delegate (\<open>Label3DHandler\<close>).\<close>

datatype handler_call =
    Handler_onMouseDown real real
  | Handler_onMouseUp
  | Handler_onMouseMove real real "Intersection option"
  | Handler_onDoubleClick
  | Handler_onKeyDown KeyboardEvent
  | Handler_onKeyUp KeyboardEvent

text \<open>
  Every call that leaves the viewer (to the delegate, the shared registry
  \<open>Session.label3dList\<close>, the renderer, the raycaster, React or the DOM event) is recorded, in
  program order, in the viewer's \<open>effects\<close>; so is \<open>camera.layers.set\<close>, whose argument the
  camera record keeps as well.
\<close>

datatype effect =
    ForceUpdate
  | LayersSet channel
  | HandlerCall handler_call
  | HandlerSetCamera Camera
  | HandlerUpdateState int int
  | StopPropagation
  | OnDrawableUpdate
  | SetActiveCamera Camera
  | ShapeLayersEnable shape int
  | UpdateMatrixWorld bool
  | SetFromCamera real real Camera
  | IntersectObjects "shape list" bool
  | RendererClear
  | RendererRender Camera
  | RendererSetSize real real
  | UpdateThreeCameraAndRenderer ViewerConfigType

text \<open>
  What the viewer reads from outside itself during one call. \<open>freeze\<close> is what the inherited
  \<open>checkFreeze()\<close> answers and \<open>handlerResult\<close> what the delegate answers (consumed or changed);
  \<open>convertMouseToNDC\<close>, \<open>updateThreeCamera\<close> (view_config/point_cloud) and the geometry of
  \<open>raycast\<close> are not part of the sources and are taken as parameters.
\<close>

record Env =
  freeze :: bool
  activeViewerId :: int
  raycastableShapes :: "shape list"
  label3dList_get :: "int \<rightharpoonup> shape list"
  images :: "(int \<rightharpoonup> HTMLImageElement) list"
  handlerResult :: "handler_call \<Rightarrow> bool"
  convertMouseToNDC :: "real \<Rightarrow> real \<Rightarrow> HTMLCanvasElement \<Rightarrow> real \<times> real"
  raycast :: "Raycaster \<Rightarrow> Camera \<Rightarrow> real \<times> real \<Rightarrow> shape \<Rightarrow> Intersection list"
  updateThreeCamera :: "ViewerConfigType \<Rightarrow> Camera \<Rightarrow> HTMLCanvasElement \<Rightarrow> Camera"

record Label3dCanvas =
  props_id :: int
  props_display :: "HTMLDivElement option"
  this_state :: State
  canvas :: "HTMLCanvasElement option"
  display :: "HTMLDivElement option"
  scale :: real
  renderer :: "HTMLCanvasElement option"
  camera :: Camera
  raycaster :: Raycaster
  canvas_keyDownMap :: "string \<rightharpoonup> bool"
  effects :: "effect list"

text \<open>
  A JavaScript exception is a value: \<open>Inl (fault, v)\<close> is the fault together with the
  viewer as it stood when the fault was thrown, \<open>Inr v\<close> a normal return.
\<close>

datatype fault = TypeError

type_synonym outcome = "(fault \<times> Label3dCanvas) + Label3dCanvas"

definition final :: "outcome \<Rightarrow> Label3dCanvas" where
  "final r = (case r of Inl (f, v) \<Rightarrow> v | Inr v \<Rightarrow> v)"

definition emit :: "effect list \<Rightarrow> Label3dCanvas \<Rightarrow> Label3dCanvas" where
  "emit es v = v\<lparr>effects := effects v @ es\<rparr>"

text \<open>The spec's Generic camera: 45 degrees field of view, aspect 1, near 0.1, far 1000.\<close>

definition Generic :: camera_kind where
  "Generic = PerspectiveCamera 45 1 (1 / 10) 1000"

definition constructor :: "int \<Rightarrow> HTMLDivElement option \<Rightarrow> State \<Rightarrow> Label3dCanvas" where
  "constructor i d st =
     \<lparr>props_id = i, props_display = d, this_state = st,
      canvas = None, display = None, scale = 1, renderer = None,
      camera = new_Camera (PerspectiveCamera 45 1 (1 / 10) 1000),
      raycaster = \<lparr>near = 1, far = 100, linePrecision = 2 / 100\<rparr>,
      canvas_keyDownMap = Map.empty,
      effects = []\<rparr>"

definition normalizeCoordinatesToCanvas :: "real \<Rightarrow> real \<Rightarrow> HTMLCanvasElement \<Rightarrow> real \<times> real" where
  "normalizeCoordinatesToCanvas x y c = (x - rect_left c, y - rect_top c)"

subsection \<open>Mouse handlers\<close>

definition onMouseDown :: "Env \<Rightarrow> MouseEvent \<Rightarrow> Label3dCanvas \<Rightarrow> Label3dCanvas" where
  "onMouseDown env e v =
     (case canvas v of
        None \<Rightarrow> v
      | Some c \<Rightarrow>
          if freeze env then v
          else
            let normalized = normalizeCoordinatesToCanvas (clientX e) (clientY e) c;
                NDC = convertMouseToNDC env (fst normalized) (snd normalized) c;
                x = fst NDC;
                y = snd NDC;
                call = Handler_onMouseDown x y
            in emit (HandlerCall call #
                     (if handlerResult env call then [StopPropagation] else [])) v)"

definition onMouseUp :: "Env \<Rightarrow> MouseEvent \<Rightarrow> Label3dCanvas \<Rightarrow> Label3dCanvas" where
  "onMouseUp env e v =
     (case canvas v of
        None \<Rightarrow> v
      | Some c \<Rightarrow>
          if freeze env then v
          else emit (HandlerCall Handler_onMouseUp #
                     (if handlerResult env Handler_onMouseUp then [StopPropagation] else [])) v)"

text \<open>
  \<open>Raycaster.intersectObjects\<close> of three.js: every object contributes the intersections
  its own \<open>raycast\<close> finds, and the collected list is sorted by ascending distance.
\<close>

definition intersectObjects ::
  "Env \<Rightarrow> Raycaster \<Rightarrow> Camera \<Rightarrow> real \<times> real \<Rightarrow> shape list \<Rightarrow> Intersection list" where
  "intersectObjects env rc cam xy shapes =
     sort_key distance (concat (map (raycast env rc cam xy) shapes))"

definition onMouseMove :: "Env \<Rightarrow> MouseEvent \<Rightarrow> Label3dCanvas \<Rightarrow> Label3dCanvas" where
  "onMouseMove env e v =
     (case canvas v of
        None \<Rightarrow> v
      | Some c \<Rightarrow>
          if freeze env then v
          else
            let normalized = normalizeCoordinatesToCanvas (clientX e) (clientY e) c;
                newX = fst normalized;
                newY = snd normalized;
                NDC = convertMouseToNDC env newX newY c;
                x = fst NDC;
                y = snd NDC;
                shapes = raycastableShapes env;
                intersects = intersectObjects env (raycaster v) (camera v) (x, y) shapes;
                call = (case intersects of
                          [] \<Rightarrow> Handler_onMouseMove x y None
                        | i # _ \<Rightarrow> Handler_onMouseMove x y (Some i))
            in emit ([UpdateMatrixWorld True,
                      SetFromCamera x y (camera v),
                      IntersectObjects shapes False,
                      HandlerCall call]
                     @ (if handlerResult env call then [StopPropagation] else [])
                     @ [OnDrawableUpdate]) v)"

definition onDoubleClick :: "Env \<Rightarrow> MouseEvent \<Rightarrow> Label3dCanvas \<Rightarrow> Label3dCanvas" where
  "onDoubleClick env e v =
     emit (HandlerCall Handler_onDoubleClick #
           (if handlerResult env Handler_onDoubleClick then [StopPropagation] else [])) v"

subsection \<open>Keyboard handlers\<close>

definition onKeyDown :: "Env \<Rightarrow> KeyboardEvent \<Rightarrow> Label3dCanvas \<Rightarrow> Label3dCanvas" where
  "onKeyDown env e v =
     (if freeze env \<or> activeViewerId env \<noteq> props_id v then v
      else
        let v1 = v\<lparr>canvas_keyDownMap := (canvas_keyDownMap v)(key e \<mapsto> True)\<rparr>
        in emit (HandlerCall (Handler_onKeyDown e) #
                 (if handlerResult env (Handler_onKeyDown e) then [OnDrawableUpdate] else [])) v1)"

definition onKeyUp :: "Env \<Rightarrow> KeyboardEvent \<Rightarrow> Label3dCanvas \<Rightarrow> Label3dCanvas" where
  "onKeyUp env e v =
     (if freeze env \<or> activeViewerId env \<noteq> props_id v then v
      else
        let v1 = v\<lparr>canvas_keyDownMap := (canvas_keyDownMap v)(key e \<mapsto> True)\<rparr>
        in emit (HandlerCall (Handler_onKeyUp e) #
                 (if handlerResult env (Handler_onKeyUp e) then [OnDrawableUpdate] else [])) v1)"

subsection \<open>State reconciliation (updateState)\<close>

text \<open>
  \<open>Object.keys\<close> enumerates the integer keys of an object (the label ids) in ascending
  order, whatever the order in which the entries were written.
\<close>

definition Object_entries :: "(int \<times> 'a) list \<Rightarrow> (int \<times> 'a) list" where
  "Object_entries kvs = sort_key fst kvs"

text \<open>The loop over the labels of the selected item (source lines 302 to 312).\<close>

fun enableLayers :: "Env \<Rightarrow> int \<Rightarrow> int \<Rightarrow> (int \<times> LabelType) list \<Rightarrow> effect list" where
  "enableLayers env vid sensorId [] = []"
| "enableLayers env vid sensorId ((i, l) # rest) =
     (if sensorId \<in> set (label_sensors l)
      then (case label3dList_get env i of
              None \<Rightarrow> []
            | Some shapes \<Rightarrow> map (\<lambda>s. ShapeLayersEnable s vid) shapes)
      else [])
     @ enableLayers env vid sensorId rest"

text \<open>
  The camera selection (source lines 314 to 333). Reading \<open>Session.images[item][sensor]\<close>
  and then \<open>image.width\<close> faults when the row or the image is missing.
\<close>

definition selectCamera ::
  "Env \<Rightarrow> State \<Rightarrow> ViewerConfigType \<Rightarrow> Label3dCanvas \<Rightarrow> outcome" where
  "selectCamera env st viewerConfig v =
     (if props_id v \<in> set (map fst (viewerConfigs (this_state v))) then
        (case
           (if vc_type viewerConfig = IMAGE_3D then
              (case map_of (sensors (this_state v)) (vc_sensor viewerConfig) of
                 None \<Rightarrow> Inr v
               | Some sensor \<Rightarrow>
                   (case intrinsics sensor of
                      None \<Rightarrow> Inr v
                    | Some intr \<Rightarrow>
                        if isCurrentFrameLoaded st (vc_sensor viewerConfig) then
                          (case array_at (images env) (select_item st) of
                             None \<Rightarrow> Inl (TypeError, v)
                           | Some row \<Rightarrow>
                               (case row (vc_sensor viewerConfig) of
                                  None \<Rightarrow> Inl (TypeError, v)
                                | Some img \<Rightarrow>
                                    Inr (v\<lparr>camera := new_Camera
                                           (IntrinsicCamera intr (image_width img)
                                              (image_height img))\<rparr>)))
                        else Inr v))
            else Inr (v\<lparr>camera := new_Camera (PerspectiveCamera 45 1 (1 / 10) 1000)\<rparr>))
         of
           Inl fv \<Rightarrow> Inl fv
         | Inr v1 \<Rightarrow> Inr (emit [HandlerSetCamera (camera v1)] v1))
      else Inr v)"

text \<open>The display synchronisation (source lines 288 to 291).\<close>

definition syncDisplay :: "Label3dCanvas \<Rightarrow> Label3dCanvas" where
  "syncDisplay v =
     (if display v \<noteq> props_display v
      then emit [ForceUpdate] (v\<lparr>display := props_display v\<rparr>)
      else v)"

text \<open>The layer assignment (source lines 293 to 297), made on the camera held at that moment.\<close>

definition assignLayer :: "Label3dCanvas \<Rightarrow> Label3dCanvas" where
  "assignLayer v =
     (let ch = layerChannel (props_id v) (map fst (viewerConfigs (this_state v)))
      in emit [LayersSet ch] (v\<lparr>camera := (camera v)\<lparr>layers := ch\<rparr>\<rparr>))"

text \<open>The publication of the camera (source lines 335 to 337).\<close>

definition publishCamera :: "Env \<Rightarrow> Label3dCanvas \<Rightarrow> Label3dCanvas" where
  "publishCamera env v =
     (if activeViewerId env = props_id v then emit [SetActiveCamera (camera v)] v else v)"

text \<open>
  \<open>updateState\<close>: reading \<open>viewerConfig.sensor\<close> (line 301) faults when the viewer id is
  not configured, and \<open>item.labels\<close> (line 302) when the selected item does not exist.
\<close>

definition updateState :: "Env \<Rightarrow> State \<Rightarrow> Label3dCanvas \<Rightarrow> outcome" where
  "updateState env st v =
     (let v2 = assignLayer (syncDisplay v)
      in case map_of (viewerConfigs (this_state v2)) (props_id v2) of
           None \<Rightarrow> Inl (TypeError, v2)
         | Some viewerConfig \<Rightarrow>
             (case array_at (items st) (select_item st) of
                None \<Rightarrow> Inl (TypeError, v2)
              | Some item \<Rightarrow>
                  let sensorId = vc_sensor viewerConfig;
                      v3 = emit (enableLayers env (props_id v2) sensorId (Object_entries (labels item))) v2
                  in (case selectCamera env st viewerConfig v3 of
                        Inl fv \<Rightarrow> Inl fv
                      | Inr v4 \<Rightarrow>
                          let v5 = publishCamera env v4
                          in Inr (emit [HandlerUpdateState (select_item st) (props_id v5)] v5))))"

subsection \<open>Rendering\<close>

definition updateRenderer :: "Env \<Rightarrow> Label3dCanvas \<Rightarrow> Label3dCanvas" where
  "updateRenderer env v =
     (case canvas v of
        None \<Rightarrow> v
      | Some c \<Rightarrow>
          (case renderer v of
             None \<Rightarrow> v
           | Some r \<Rightarrow>
               (case getCurrentViewerConfig (this_state v) (props_id v) of
                  None \<Rightarrow> v
                | Some config \<Rightarrow>
                    (case vc_type config of
                       POINT_CLOUD \<Rightarrow>
                         emit [UpdateThreeCameraAndRenderer config]
                           (v\<lparr>camera := updateThreeCamera env config (camera v) c\<rparr>)
                     | IMAGE_3D \<Rightarrow>
                         (case map_of (sensors (this_state v)) (vc_sensor config) of
                            None \<Rightarrow> v
                          | Some s \<Rightarrow>
                              let c1 = position_set 0 0 0 (camera v);
                                  c2 = (case extrinsics s of
                                          None \<Rightarrow> c1
                                        | Some ex \<Rightarrow>
                                            position_set
                                              (vx (translation ex))
                                              (vy (translation ex))
                                              (vz (translation ex))
                                              (quaternion_multiply
                                                 (setFromAxisAngle \<lparr>vx = 1, vy = 0, vz = 0\<rparr> pi)
                                                 (quaternion_set
                                                    (qx (rotation ex))
                                                    (qy (rotation ex))
                                                    (qz (rotation ex))
                                                    (qw (rotation ex)) c1)))
                              in emit [RendererSetSize (canvas_width c) (canvas_height c)]
                                   (v\<lparr>camera := c2\<rparr>))
                     | OTHER_TYPE t \<Rightarrow> v))))"

text \<open>
  \<open>renderThree\<close> and \<open>redraw\<close> read \<open>viewerConfigs[id].sensor\<close> without a guard: the read
  faults when the viewer id is not configured.
\<close>

definition renderThree :: "Env \<Rightarrow> Label3dCanvas \<Rightarrow> outcome" where
  "renderThree env v =
     (case map_of (viewerConfigs (this_state v)) (props_id v) of
        None \<Rightarrow> Inl (TypeError, v)
      | Some vc \<Rightarrow>
          if renderer v \<noteq> None \<and> isCurrentFrameLoaded (this_state v) (vc_sensor vc)
          then Inr (emit [RendererRender (camera v)] v)
          else if renderer v \<noteq> None then Inr (emit [RendererClear] v)
          else Inr v)"

definition redraw :: "Env \<Rightarrow> Label3dCanvas \<Rightarrow> outcome" where
  "redraw env v =
     (case canvas v of
        None \<Rightarrow> Inr v
      | Some c \<Rightarrow>
          (case map_of (viewerConfigs (this_state v)) (props_id v) of
             None \<Rightarrow> Inl (TypeError, v)
           | Some vc \<Rightarrow>
               if isCurrentFrameLoaded (this_state v) (vc_sensor vc)
               then renderThree env (updateRenderer env v)
               else if renderer v \<noteq> None then Inr (emit [RendererClear] v)
               else Inr v))"

subsection \<open>Mounting and unmounting\<close>

text \<open>
  The host side of the listener lifecycle: the document's keyboard listeners, the
  subscribers of the scene-update channel, and the calls made on both. A viewer instance
  \<open>n\<close> owns three callbacks, created once in its constructor.
\<close>

datatype listener = KeyDownListener nat | KeyUpListener nat

datatype host_call =
    SuperComponentDidMount
  | SuperComponentWillUnmount
  | AddEventListener string listener
  | RemoveEventListener string listener
  | Subscribe nat
  | Unsubscribe nat

record Host =
  documentListeners :: "(string \<times> listener) list"
  subscribers :: "nat list"
  calls :: "host_call list"

text \<open>
  The DOM's \<open>addEventListener\<close> ignores a listener that is already registered for the
  event type; \<open>removeEventListener\<close> removes the registered one.
\<close>

definition addEventListener :: "string \<Rightarrow> listener \<Rightarrow> Host \<Rightarrow> Host" where
  "addEventListener ty l h =
     h\<lparr>documentListeners :=
         (if (ty, l) \<in> set (documentListeners h) then documentListeners h
          else documentListeners h @ [(ty, l)]),
       calls := calls h @ [AddEventListener ty l]\<rparr>"

definition removeEventListener :: "string \<Rightarrow> listener \<Rightarrow> Host \<Rightarrow> Host" where
  "removeEventListener ty l h =
     h\<lparr>documentListeners := remove1 (ty, l) (documentListeners h),
       calls := calls h @ [RemoveEventListener ty l]\<rparr>"

text \<open>
  Modelled from the spec: the scene-update channel of \<open>Session.label3dList\<close>
  (drawable/3d/label3d_list) is not part of the sources; it is a publish/subscribe channel
  with \<open>subscribe(callback)\<close> and \<open>unsubscribe(callback)\<close>.
\<close>

definition subscribe :: "nat \<Rightarrow> Host \<Rightarrow> Host" where
  "subscribe cb h = h\<lparr>subscribers := subscribers h @ [cb], calls := calls h @ [Subscribe cb]\<rparr>"

definition unsubscribe :: "nat \<Rightarrow> Host \<Rightarrow> Host" where
  "unsubscribe cb h =
     h\<lparr>subscribers := remove1 cb (subscribers h), calls := calls h @ [Unsubscribe cb]\<rparr>"

text \<open>The superclass hooks are not part of the sources; the call is recorded.\<close>

definition componentDidMount :: "nat \<Rightarrow> Host \<Rightarrow> Host" where
  "componentDidMount inst h =
     subscribe inst
       (addEventListener ''keyup'' (KeyUpListener inst)
          (addEventListener ''keydown'' (KeyDownListener inst)
             (h\<lparr>calls := calls h @ [SuperComponentDidMount]\<rparr>)))"

definition componentWillUnmount :: "nat \<Rightarrow> Host \<Rightarrow> Host" where
  "componentWillUnmount inst h =
     unsubscribe inst
       (removeEventListener ''keyup'' (KeyUpListener inst)
          (removeEventListener ''keydown'' (KeyDownListener inst)
             (h\<lparr>calls := calls h @ [SuperComponentWillUnmount]\<rparr>)))"

text \<open>\<open>n\<close> mount/unmount cycles of one viewer instance.\<close>

fun mountUnmountCycles :: "nat \<Rightarrow> nat \<Rightarrow> Host \<Rightarrow> Host" where
  "mountUnmountCycles 0 inst h = h"
| "mountUnmountCycles (Suc n) inst h =
     mountUnmountCycles n inst (componentWillUnmount inst (componentDidMount inst h))"

definition cycleCalls :: "nat \<Rightarrow> host_call list" where
  "cycleCalls inst =
     [SuperComponentDidMount,
      AddEventListener ''keydown'' (KeyDownListener inst),
      AddEventListener ''keyup'' (KeyUpListener inst),
      Subscribe inst,
      SuperComponentWillUnmount,
      RemoveEventListener ''keydown'' (KeyDownListener inst),
      RemoveEventListener ''keyup'' (KeyUpListener inst),
      Unsubscribe inst]"

subsection \<open>Reading the recorded calls\<close>

fun published :: "effect list \<Rightarrow> Camera list" where
  "published [] = []"
| "published (SetActiveCamera c # es) = c # published es"
| "published (e # es) = published es"

fun layerCalls :: "effect list \<Rightarrow> channel list" where
  "layerCalls [] = []"
| "layerCalls (LayersSet ch # es) = ch # layerCalls es"
| "layerCalls (e # es) = layerCalls es"

fun handlerCalls :: "effect list \<Rightarrow> handler_call list" where
  "handlerCalls [] = []"
| "handlerCalls (HandlerCall c # es) = c # handlerCalls es"
| "handlerCalls (e # es) = handlerCalls es"

section \<open>Concrete inputs\<close>

definition exampleIntrinsics :: IntrinsicsType where
  "exampleIntrinsics = \<lparr>focalLength = (700, 700), focalCenter = (320, 240)\<rparr>"

definition exampleExtrinsics :: ExtrinsicsType where
  "exampleExtrinsics =
     \<lparr>rotation = \<lparr>qx = 0, qy = 0, qz = 0, qw = 1\<rparr>,
      translation = \<lparr>vx = 1, vy = 2, vz = 3\<rparr>\<rparr>"

text \<open>
  Two viewers, 0 (image with intrinsics, on sensor 0) and 1 (point cloud, on sensor 1); one
  item with one label seen by sensor 0. In \<open>unloadedState\<close> no frame is loaded, in
  \<open>loadedState\<close> the frame of sensor 0 is.
\<close>

definition unloadedState :: State where
  "unloadedState =
     \<lparr>viewerConfigs =
        [(0, \<lparr>vc_type = IMAGE_3D, vc_sensor = 0, viewScale = 1\<rparr>),
         (1, \<lparr>vc_type = POINT_CLOUD, vc_sensor = 1, viewScale = 1\<rparr>)],
      sensors =
        [(0, \<lparr>intrinsics = Some exampleIntrinsics, extrinsics = Some exampleExtrinsics\<rparr>),
         (1, \<lparr>intrinsics = None, extrinsics = None\<rparr>)],
      items = [\<lparr>labels = [(7, \<lparr>label_sensors = [0]\<rparr>)]\<rparr>],
      select_item = 0,
      loadedSensors = []\<rparr>"

definition loadedState :: State where
  "loadedState = unloadedState\<lparr>loadedSensors := [0]\<rparr>"

text \<open>A snapshot in which no viewer is configured.\<close>

definition unconfiguredState :: State where
  "unconfiguredState = unloadedState\<lparr>viewerConfigs := []\<rparr>"

text \<open>
  Viewer 0 is the active one; three shapes 10, 11, 12 are hit at distances 5, 2 and 8; the
  delegate consumes nothing.
\<close>

definition exampleEnv :: Env where
  "exampleEnv =
     \<lparr>freeze = False,
      activeViewerId = 0,
      raycastableShapes = [10, 11, 12],
      label3dList_get = [7 \<mapsto> [10, 11]],
      images = [[0 \<mapsto> \<lparr>image_width = 640, image_height = 480\<rparr>]],
      handlerResult = (\<lambda>c. False),
      convertMouseToNDC =
        (\<lambda>x y c. (2 * (x / canvas_width c) - 1, - 2 * (y / canvas_height c) + 1)),
      raycast =
        (\<lambda>rc cam xy s.
           if s = 10 then [\<lparr>distance = 5, hit_object = 10\<rparr>]
           else if s = 11 then [\<lparr>distance = 2, hit_object = 11\<rparr>]
           else if s = 12 then [\<lparr>distance = 8, hit_object = 12\<rparr>]
           else []),
      updateThreeCamera = (\<lambda>cfg cam c. cam)\<rparr>"

definition frozenEnv :: Env where
  "frozenEnv = exampleEnv\<lparr>freeze := True\<rparr>"

definition exampleCanvas :: HTMLCanvasElement where
  "exampleCanvas = \<lparr>rect_left = 0, rect_top = 0, canvas_width = 640, canvas_height = 480\<rparr>"

text \<open>Viewer 0 with its canvas and renderer attached.\<close>

definition readyViewer :: "State \<Rightarrow> Label3dCanvas" where
  "readyViewer st =
     (constructor 0 None st)\<lparr>canvas := Some exampleCanvas, renderer := Some exampleCanvas\<rparr>"

section \<open>Auxiliary facts about the recorded calls\<close>

lemma published_append: "published (xs @ ys) = published xs @ published ys"
  by (induction xs rule: published.induct) simp_all

lemma layerCalls_append: "layerCalls (xs @ ys) = layerCalls xs @ layerCalls ys"
  by (induction xs rule: layerCalls.induct) simp_all

lemma handlerCalls_append: "handlerCalls (xs @ ys) = handlerCalls xs @ handlerCalls ys"
  by (induction xs rule: handlerCalls.induct) simp_all

section \<open>Auxiliary facts about the stages of updateState\<close>

lemma final_simps [simp]: "final (Inl (f, v)) = v" "final (Inr v) = v"
  by (simp_all add: final_def)

lemma emit_simps [simp]:
  "effects (emit es v) = effects v @ es"
  "camera (emit es v) = camera v"
  "props_id (emit es v) = props_id v"
  "this_state (emit es v) = this_state v"
  "raycaster (emit es v) = raycaster v"
  "canvas_keyDownMap (emit es v) = canvas_keyDownMap v"
  by (simp_all add: emit_def)

lemma syncDisplay_simps [simp]:
  "camera (syncDisplay v) = camera v"
  "props_id (syncDisplay v) = props_id v"
  "this_state (syncDisplay v) = this_state v"
  "raycaster (syncDisplay v) = raycaster v"
  "canvas_keyDownMap (syncDisplay v) = canvas_keyDownMap v"
  "published (effects (syncDisplay v)) = published (effects v)"
  "layerCalls (effects (syncDisplay v)) = layerCalls (effects v)"
  "handlerCalls (effects (syncDisplay v)) = handlerCalls (effects v)"
  by (simp_all add: syncDisplay_def published_append layerCalls_append handlerCalls_append)

lemma assignLayer_simps [simp]:
  "camera (assignLayer v)
     = (camera v)\<lparr>layers := layerChannel (props_id v) (map fst (viewerConfigs (this_state v)))\<rparr>"
  "props_id (assignLayer v) = props_id v"
  "this_state (assignLayer v) = this_state v"
  "raycaster (assignLayer v) = raycaster v"
  "canvas_keyDownMap (assignLayer v) = canvas_keyDownMap v"
  "published (effects (assignLayer v)) = published (effects v)"
  "layerCalls (effects (assignLayer v))
     = layerCalls (effects v) @ [layerChannel (props_id v) (map fst (viewerConfigs (this_state v)))]"
  "handlerCalls (effects (assignLayer v)) = handlerCalls (effects v)"
  by (simp_all add: assignLayer_def Let_def published_append layerCalls_append handlerCalls_append)

lemma publishCamera_simps [simp]:
  "camera (publishCamera env v) = camera v"
  "props_id (publishCamera env v) = props_id v"
  "this_state (publishCamera env v) = this_state v"
  "raycaster (publishCamera env v) = raycaster v"
  "canvas_keyDownMap (publishCamera env v) = canvas_keyDownMap v"
  "published (effects (publishCamera env v))
     = published (effects v) @ (if activeViewerId env = props_id v then [camera v] else [])"
  "layerCalls (effects (publishCamera env v)) = layerCalls (effects v)"
  "handlerCalls (effects (publishCamera env v)) = handlerCalls (effects v)"
  by (simp_all add: publishCamera_def published_append layerCalls_append handlerCalls_append)

lemma ShapeLayersEnable_silent [simp]:
  "published (map (\<lambda>s. ShapeLayersEnable s i) shapes) = []"
  "layerCalls (map (\<lambda>s. ShapeLayersEnable s i) shapes) = []"
  "handlerCalls (map (\<lambda>s. ShapeLayersEnable s i) shapes) = []"
  by (induction shapes) simp_all

lemma enableLayers_silent [simp]:
  "published (enableLayers env i s ls) = []"
  "layerCalls (enableLayers env i s ls) = []"
  "handlerCalls (enableLayers env i s ls) = []"
  by (induction env i s ls rule: enableLayers.induct)
     (simp_all add: published_append layerCalls_append handlerCalls_append split: option.splits)

lemma selectCamera_final:
  "props_id (final (selectCamera env st vc v)) = props_id v"
  "this_state (final (selectCamera env st vc v)) = this_state v"
  "raycaster (final (selectCamera env st vc v)) = raycaster v"
  "canvas_keyDownMap (final (selectCamera env st vc v)) = canvas_keyDownMap v"
  "published (effects (final (selectCamera env st vc v))) = published (effects v)"
  "layerCalls (effects (final (selectCamera env st vc v))) = layerCalls (effects v)"
  "handlerCalls (effects (final (selectCamera env st vc v))) = handlerCalls (effects v)"
  by (simp_all add: selectCamera_def published_append layerCalls_append handlerCalls_append
      split: option.splits)

lemma selectCamera_unloaded:
  "vc_type vc = IMAGE_3D \<Longrightarrow> \<not> isCurrentFrameLoaded st (vc_sensor vc) \<Longrightarrow>
   camera (final (selectCamera env st vc v)) = camera v"
  by (simp add: selectCamera_def split: option.splits)

text \<open>The four ways \<open>updateState\<close> can end.\<close>

lemma updateState_cases:
  obtains
    (unconfigured) "map_of (viewerConfigs (this_state v)) (props_id v) = None"
       "updateState env st v = Inl (TypeError, assignLayer (syncDisplay v))"
  | (noitem) vc where "map_of (viewerConfigs (this_state v)) (props_id v) = Some vc"
       "array_at (items st) (select_item st) = None"
       "updateState env st v = Inl (TypeError, assignLayer (syncDisplay v))"
  | (noimage) vc item w where "map_of (viewerConfigs (this_state v)) (props_id v) = Some vc"
       "array_at (items st) (select_item st) = Some item"
       "w = selectCamera env st vc
              (emit (enableLayers env (props_id v) (vc_sensor vc) (Object_entries (labels item)))
                 (assignLayer (syncDisplay v)))"
       "isl w" "updateState env st v = w"
  | (returned) vc item v4 where "map_of (viewerConfigs (this_state v)) (props_id v) = Some vc"
       "array_at (items st) (select_item st) = Some item"
       "selectCamera env st vc
              (emit (enableLayers env (props_id v) (vc_sensor vc) (Object_entries (labels item)))
                 (assignLayer (syncDisplay v))) = Inr v4"
       "updateState env st v
          = Inr (emit [HandlerUpdateState (select_item st) (props_id v)] (publishCamera env v4))"
proof (cases "map_of (viewerConfigs (this_state v)) (props_id v)")
  case None
  then show ?thesis using unconfigured by (simp add: updateState_def Let_def)
next
  case (Some vc)
  note cfg = Some
  show ?thesis
  proof (cases "array_at (items st) (select_item st)")
    case None
    then show ?thesis using cfg noitem by (simp add: updateState_def Let_def)
  next
    case (Some item)
    let ?w = "selectCamera env st vc
              (emit (enableLayers env (props_id v) (vc_sensor vc) (Object_entries (labels item)))
                 (assignLayer (syncDisplay v)))"
    show ?thesis
    proof (cases ?w)
      case (Inl fv)
      then have "updateState env st v = ?w" using cfg Some
        by (simp add: updateState_def Let_def)
      then show ?thesis using noimage[OF cfg Some refl] Inl by simp
    next
      case (Inr v4)
      have "props_id v4 = props_id v"
        using selectCamera_final(1)[of env st vc "(emit (enableLayers env (props_id v) (vc_sensor vc) (Object_entries (labels item)))
                 (assignLayer (syncDisplay v)))"] Inr by simp
      then have "updateState env st v
          = Inr (emit [HandlerUpdateState (select_item st) (props_id v)] (publishCamera env v4))"
        using cfg Some Inr by (simp add: updateState_def Let_def)
      then show ?thesis using returned[OF cfg Some Inr] by simp
    qed
  qed
qed

lemma Math_min_Min:
  assumes "ks \<noteq> []"
  shows "Math_min ks = Some (Min (set ks))"
proof (cases ks)
  case Nil
  then show ?thesis using assms by simp
next
  case (Cons a list)
  have "Min (set (a # list)) = fold min list a" by (rule Min.set_eq_fold)
  then show ?thesis using Cons by simp
qed


lemma updateState_final_fields:
  "props_id (final (updateState env st v)) = props_id v"
  "this_state (final (updateState env st v)) = this_state v"
  "raycaster (final (updateState env st v)) = raycaster v"
  "canvas_keyDownMap (final (updateState env st v)) = canvas_keyDownMap v"
proof -
  have "props_id (final (updateState env st v)) = props_id v
      \<and> this_state (final (updateState env st v)) = this_state v
      \<and> raycaster (final (updateState env st v)) = raycaster v
      \<and> canvas_keyDownMap (final (updateState env st v)) = canvas_keyDownMap v"
  proof (cases rule: updateState_cases[of v env st])
    case unconfigured
    then show ?thesis by simp
  next
    case (noitem vc)
    then show ?thesis by simp
  next
    case (noimage vc item w)
    then show ?thesis by (simp add: selectCamera_final)
  next
    case (returned vc item v4)
    then show ?thesis
      using selectCamera_final(1-4)[of env st vc
        "emit (enableLayers env (props_id v) (vc_sensor vc) (Object_entries (labels item))) (assignLayer (syncDisplay v))"]
      by simp
  qed
  then show "props_id (final (updateState env st v)) = props_id v"
    "this_state (final (updateState env st v)) = this_state v"
    "raycaster (final (updateState env st v)) = raycaster v"
    "canvas_keyDownMap (final (updateState env st v)) = canvas_keyDownMap v"
    by simp_all
qed

lemma updateState_layerCalls:
  "layerCalls (effects (final (updateState env st v)))
           = layerCalls (effects v)
             @ [layerChannel (props_id v) (map fst (viewerConfigs (this_state v)))]"
proof (cases rule: updateState_cases[of v env st])
  case unconfigured
  then show ?thesis by simp
next
  case (noitem vc)
  then show ?thesis by simp
next
  case (noimage vc item w)
  then show ?thesis by (simp add: selectCamera_final layerCalls_append)
next
  case (returned vc item v4)
  then show ?thesis
    using selectCamera_final(6)[of env st vc
      "emit (enableLayers env (props_id v) (vc_sensor vc) (Object_entries (labels item))) (assignLayer (syncDisplay v))"]
    by (simp add: layerCalls_append)
qed

lemma updateState_published:
  "published (effects (final (updateState env st v)))
     = published (effects v)
       @ (if \<not> isl (updateState env st v) \<and> activeViewerId env = props_id v
          then [camera (final (updateState env st v))] else [])"
proof (cases rule: updateState_cases[of v env st])
  case unconfigured
  then show ?thesis by simp
next
  case (noitem vc)
  then show ?thesis by simp
next
  case (noimage vc item w)
  then show ?thesis by (simp add: selectCamera_final published_append)
next
  case (returned vc item v4)
  then show ?thesis
    using selectCamera_final(1,5)[of env st vc
      "emit (enableLayers env (props_id v) (vc_sensor vc) (Object_entries (labels item))) (assignLayer (syncDisplay v))"]
    by (simp add: published_append)
qed

lemma key_handlers_published:
  "published (effects (onKeyDown env e v)) = published (effects v)"
  "published (effects (onKeyUp env e v)) = published (effects v)"
  by (simp_all add: onKeyDown_def onKeyUp_def Let_def published_append)

section \<open>Session keyboard handlers\<close>

text \<open>
  C10. The session-level key handlers are gated asymmetrically. With the status
  \<open>RECONNECTING\<close>, \<open>Session.onKeyDown\<close> returns the session as it was: the key-down map is
  unchanged and the callback is not invoked. \<open>Session.onKeyUp\<close> does not look at the
  status: for every session, one that is reconnecting included, it removes the key from
  the key-down map and invokes the callback.
\<close>

theorem Session_key_gating_asymmetric:
  "Session_onKeyDown e cb (s\<lparr>status := RECONNECTING\<rparr>) = s\<lparr>status := RECONNECTING\<rparr>
   \<and> keyDownMap (Session_onKeyUp e cb s) = (keyDownMap s)(key e := None)
   \<and> invoked (Session_onKeyUp e cb s) = invoked s @ [(cb, e)]
   \<and> status (Session_onKeyUp e cb s) = status s
   \<and> Session_isKeyDown (key e) (Session_onKeyUp e cb (s\<lparr>status := RECONNECTING\<rparr>)) = None"
  by (simp add: Session_onKeyDown_def Session_onKeyUp_def Session_isKeyDown_def)

section \<open>Key-up and the key-down maps\<close>

text \<open>The session's key-up handler clears the key: \<open>isKeyDown\<close> is falsy afterwards.\<close>

lemma Session_onKeyUp_clears_key:
  "\<not> truthy (Session_isKeyDown (key e) (Session_onKeyUp e cb s))"
  by (simp add: Session_onKeyUp_def Session_isKeyDown_def truthy_def)

text \<open>
  C3. After a key-up event for a key, the key should no longer be marked as down. The
  canvas's key-up handler does the opposite: whenever it is not gated (not frozen, active
  viewer), it stores \<open>true\<close> for the released key, as the key-down handler does.
\<close>

theorem canvas_onKeyUp_marks_key_down:
  "canvas_keyDownMap
     (onKeyUp (env\<lparr>freeze := False, activeViewerId := props_id v\<rparr>) e v) (key e) = Some True"
  by (simp add: onKeyUp_def emit_def Let_def)

section \<open>Freeze gating\<close>

text \<open>
  Five of the six input handlers return at once when the freeze condition holds: the
  viewer, its key-down map and its recorded calls are unchanged.
\<close>

lemma frozen_handlers_return:
  "freeze env \<Longrightarrow>
     onMouseDown env m v = v \<and> onMouseUp env m v = v \<and> onMouseMove env m v = v
     \<and> onKeyDown env k v = v \<and> onKeyUp env k v = v"
  by (simp add: onMouseDown_def onMouseUp_def onMouseMove_def onKeyDown_def onKeyUp_def
      split: option.splits)

text \<open>
  C2. Under the freeze condition no input handler should reach the Interaction Delegate.
  The double-click handler has no freeze check: under freeze it still calls the delegate's
  \<open>onDoubleClick\<close>.
\<close>

theorem onDoubleClick_ignores_freeze:
  "handlerCalls (effects (onDoubleClick (env\<lparr>freeze := True\<rparr>) e v))
     = handlerCalls (effects v) @ [Handler_onDoubleClick]"
  by (simp add: onDoubleClick_def emit_def handlerCalls_append)

section \<open>Camera selection during reconciliation\<close>

text \<open>
  C1 (as stated): for a viewer configured as image-with-intrinsics whose frame is not
  loaded, the camera after \<open>updateState\<close> is the Generic camera whatever it was before.
  This fails: viewer 0 is reconciled once with its frame loaded, which installs the
  intrinsics-derived camera, and once more with the frame unloaded; both calls return and
  the camera is still the intrinsics-derived one.
\<close>

theorem camera_fallback_counterexample:
  "\<not> isl (updateState exampleEnv loadedState (readyViewer loadedState))
   \<and> vc_type (the (map_of (viewerConfigs unloadedState) 0)) = IMAGE_3D
   \<and> \<not> isCurrentFrameLoaded unloadedState 0
   \<and> \<not> isl (updateState exampleEnv unloadedState
         ((projr (updateState exampleEnv loadedState (readyViewer loadedState)))
            \<lparr>this_state := unloadedState\<rparr>))
   \<and> kind (camera (projr (updateState exampleEnv unloadedState
         ((projr (updateState exampleEnv loadedState (readyViewer loadedState)))
            \<lparr>this_state := unloadedState\<rparr>))))
       = IntrinsicCamera exampleIntrinsics 640 480
   \<and> IntrinsicCamera exampleIntrinsics 640 480 \<noteq> Generic"
  by (simp add: updateState_def Let_def syncDisplay_def assignLayer_def publishCamera_def
      selectCamera_def readyViewer_def constructor_def loadedState_def unloadedState_def
      exampleEnv_def isCurrentFrameLoaded_def array_at_def emit_def new_Camera_def Generic_def
      layerChannel_def Object_entries_def)

text \<open>
  C1 (amended): for a viewer configured as image-with-intrinsics whose frame is not
  loaded, \<open>updateState\<close> retains the camera that was active before: same projection and
  pose, only its layer channel is reassigned. This holds whether the call returns or
  faults. Hence the camera is Generic afterwards exactly when it was Generic before.
\<close>

theorem updateState_retains_camera_when_unloaded:
  assumes cfg: "map_of (viewerConfigs (this_state v)) (props_id v) = Some vc"
    and ty: "vc_type vc = IMAGE_3D"
    and unl: "\<not> isCurrentFrameLoaded st (vc_sensor vc)"
  shows "camera (final (updateState env st v))
           = (camera v)\<lparr>layers := layerChannel (props_id v) (map fst (viewerConfigs (this_state v)))\<rparr>
         \<and> (kind (camera (final (updateState env st v))) = Generic \<longleftrightarrow> kind (camera v) = Generic)"
proof -
  have "camera (final (updateState env st v))
           = (camera v)\<lparr>layers := layerChannel (props_id v) (map fst (viewerConfigs (this_state v)))\<rparr>"
  proof (cases rule: updateState_cases[of v env st])
    case unconfigured
    then show ?thesis by simp
  next
    case (noitem vc)
    then show ?thesis by simp
  next
    case (noimage vc' item w)
    then show ?thesis using cfg selectCamera_unloaded[OF ty unl, of env] by simp
  next
    case (returned vc' item v4)
    then show ?thesis using cfg selectCamera_unloaded[OF ty unl, of env
        "emit (enableLayers env (props_id v) (vc_sensor vc) (Object_entries (labels item))) (assignLayer (syncDisplay v))"]
      by simp
  qed
  then show ?thesis by simp
qed

theorem updateState_retains_camera_witness:
  "map_of (viewerConfigs (this_state ((readyViewer unloadedState)
       \<lparr>camera := new_Camera (IntrinsicCamera exampleIntrinsics 640 480)\<rparr>)))
     (props_id ((readyViewer unloadedState)
       \<lparr>camera := new_Camera (IntrinsicCamera exampleIntrinsics 640 480)\<rparr>))
     = Some \<lparr>vc_type = IMAGE_3D, vc_sensor = 0, viewScale = 1\<rparr>
   \<and> vc_type \<lparr>vc_type = IMAGE_3D, vc_sensor = 0, viewScale = 1\<rparr> = IMAGE_3D
   \<and> \<not> isCurrentFrameLoaded unloadedState 0
   \<and> kind (camera (final (updateState exampleEnv unloadedState
        ((readyViewer unloadedState)
           \<lparr>camera := new_Camera (IntrinsicCamera exampleIntrinsics 640 480)\<rparr>))))
      = IntrinsicCamera exampleIntrinsics 640 480"
  using updateState_retains_camera_when_unloaded
    [of "(readyViewer unloadedState)
           \<lparr>camera := new_Camera (IntrinsicCamera exampleIntrinsics 640 480)\<rparr>"
        "\<lparr>vc_type = IMAGE_3D, vc_sensor = 0, viewScale = 1\<rparr>" unloadedState exampleEnv]
  by (simp add: readyViewer_def constructor_def unloadedState_def isCurrentFrameLoaded_def
      new_Camera_def)

section \<open>Extrinsics\<close>

text \<open>
  C4. For a viewer in image-with-intrinsics mode whose sensor has extrinsics, the pose
  update of \<open>updateRenderer\<close> (which runs once canvas and renderer exist) sets the position
  to zero, sets the orientation to the sensor's rotation, multiplies it on the right by
  the rotation of 180 degrees about X, and then sets the position to the sensor's
  translation. With the identity rotation the orientation is the 180 degrees about X
  quaternion alone.
\<close>

theorem extrinsics_pose:
  assumes "canvas v = Some c" and "renderer v = Some r"
    and "getCurrentViewerConfig (this_state v) (props_id v) = Some config"
    and "vc_type config = IMAGE_3D"
    and "map_of (sensors (this_state v)) (vc_sensor config) = Some s"
    and "extrinsics s = Some ex"
  shows "camera (updateRenderer env v)
           = position_set (vx (translation ex)) (vy (translation ex)) (vz (translation ex))
               (quaternion_multiply (setFromAxisAngle \<lparr>vx = 1, vy = 0, vz = 0\<rparr> pi)
                  (quaternion_set (qx (rotation ex)) (qy (rotation ex)) (qz (rotation ex))
                     (qw (rotation ex))
                     (position_set 0 0 0 (camera v))))
         \<and> position (camera (updateRenderer env v)) = translation ex
         \<and> quaternion (camera (updateRenderer env v))
             = multiplyQuaternions (rotation ex) (setFromAxisAngle \<lparr>vx = 1, vy = 0, vz = 0\<rparr> pi)
         \<and> (rotation ex = \<lparr>qx = 0, qy = 0, qz = 0, qw = 1\<rparr> \<longrightarrow>
              quaternion (camera (updateRenderer env v))
                = setFromAxisAngle \<lparr>vx = 1, vy = 0, vz = 0\<rparr> pi)"
  using assms
  by (simp add: updateRenderer_def Let_def position_set_def quaternion_set_def
      quaternion_multiply_def multiplyQuaternions_def setFromAxisAngle_def)

theorem extrinsics_pose_witness:
  "canvas (readyViewer loadedState) = Some exampleCanvas
   \<and> renderer (readyViewer loadedState) = Some exampleCanvas
   \<and> getCurrentViewerConfig (this_state (readyViewer loadedState)) (props_id (readyViewer loadedState))
       = Some \<lparr>vc_type = IMAGE_3D, vc_sensor = 0, viewScale = 1\<rparr>
   \<and> map_of (sensors (this_state (readyViewer loadedState))) 0
       = Some \<lparr>intrinsics = Some exampleIntrinsics, extrinsics = Some exampleExtrinsics\<rparr>
   \<and> rotation exampleExtrinsics = \<lparr>qx = 0, qy = 0, qz = 0, qw = 1\<rparr>
   \<and> translation exampleExtrinsics = \<lparr>vx = 1, vy = 2, vz = 3\<rparr>
   \<and> position (camera (updateRenderer exampleEnv (readyViewer loadedState)))
       = \<lparr>vx = 1, vy = 2, vz = 3\<rparr>
   \<and> quaternion (camera (updateRenderer exampleEnv (readyViewer loadedState)))
       = setFromAxisAngle \<lparr>vx = 1, vy = 0, vz = 0\<rparr> pi
   \<and> setFromAxisAngle \<lparr>vx = 1, vy = 0, vz = 0\<rparr> pi = \<lparr>qx = 1, qy = 0, qz = 0, qw = 0\<rparr>"
proof -
  let ?v = "readyViewer loadedState"
  let ?cfg = "\<lparr>vc_type = IMAGE_3D, vc_sensor = 0, viewScale = 1\<rparr>"
  let ?s = "\<lparr>intrinsics = Some exampleIntrinsics, extrinsics = Some exampleExtrinsics\<rparr>"
  have h1: "canvas ?v = Some exampleCanvas" and h2: "renderer ?v = Some exampleCanvas"
    by (simp_all add: readyViewer_def)
  have h3: "getCurrentViewerConfig (this_state ?v) (props_id ?v) = Some ?cfg"
    by (simp add: readyViewer_def constructor_def loadedState_def unloadedState_def
        getCurrentViewerConfig_def)
  have h4: "vc_type ?cfg = IMAGE_3D" by simp
  have h5: "map_of (sensors (this_state ?v)) (vc_sensor ?cfg) = Some ?s"
    by (simp add: readyViewer_def constructor_def loadedState_def unloadedState_def)
  have h6: "extrinsics ?s = Some exampleExtrinsics" by simp
  have r: "rotation exampleExtrinsics = \<lparr>qx = 0, qy = 0, qz = 0, qw = 1\<rparr>"
    and t: "translation exampleExtrinsics = \<lparr>vx = 1, vy = 2, vz = 3\<rparr>"
    by (simp_all add: exampleExtrinsics_def)
  have q: "setFromAxisAngle \<lparr>vx = 1, vy = 0, vz = 0\<rparr> pi = \<lparr>qx = 1, qy = 0, qz = 0, qw = 0\<rparr>"
    by (simp add: setFromAxisAngle_def)
  show ?thesis
    using extrinsics_pose[OF h1 h2 h3 h4 h5 h6, of exampleEnv] h1 h2 h3 h5 r t q
    by (simp add: position_set_def quaternion_set_def quaternion_multiply_def
        multiplyQuaternions_def)
qed

section \<open>Layer assignment\<close>

text \<open>
  The layer handed to \<open>camera.layers.set\<close> is a function of the viewer's id and the
  configured viewer ids alone: the id minus the least configured id. Every \<open>updateState\<close>,
  returning or faulting, makes exactly one such call; a second update from the same inputs
  hands over the same layer again; the lowest configured id gets layer 0.
\<close>

lemma layer_assignment:
  assumes "viewerConfigs (this_state v) \<noteq> []"
  shows "layerChannel (props_id v) (map fst (viewerConfigs (this_state v)))
             = Channel (props_id v - Min (fst ` set (viewerConfigs (this_state v))))
         \<and> layerCalls (effects (final (updateState env st v)))
             = layerCalls (effects v)
               @ [Channel (props_id v - Min (fst ` set (viewerConfigs (this_state v))))]
         \<and> layerCalls (effects (final (updateState env' st' (final (updateState env st v)))))
             = layerCalls (effects v)
               @ [Channel (props_id v - Min (fst ` set (viewerConfigs (this_state v)))),
                  Channel (props_id v - Min (fst ` set (viewerConfigs (this_state v))))]
         \<and> (props_id v = Min (fst ` set (viewerConfigs (this_state v))) \<longrightarrow>
              layerChannel (props_id v) (map fst (viewerConfigs (this_state v))) = Channel 0)"
proof -
  have ch: "layerChannel (props_id v) (map fst (viewerConfigs (this_state v)))
             = Channel (props_id v - Min (fst ` set (viewerConfigs (this_state v))))"
    using assms by (simp add: layerChannel_def Math_min_Min)
  have once: "layerCalls (effects (final (updateState env st v)))
             = layerCalls (effects v)
               @ [Channel (props_id v - Min (fst ` set (viewerConfigs (this_state v))))]"
    using ch by (simp add: updateState_layerCalls)
  have twice: "layerCalls (effects (final (updateState env' st' (final (updateState env st v)))))
             = layerCalls (effects v)
               @ [Channel (props_id v - Min (fst ` set (viewerConfigs (this_state v)))),
                  Channel (props_id v - Min (fst ` set (viewerConfigs (this_state v))))]"
    using ch by (simp add: updateState_layerCalls updateState_final_fields)
  have low: "props_id v = Min (fst ` set (viewerConfigs (this_state v))) \<longrightarrow>
      layerChannel (props_id v) (map fst (viewerConfigs (this_state v))) = Channel 0"
    using ch by auto
  show ?thesis using ch once twice low by blast
qed

lemma layer_assignment_witness:
  "viewerConfigs (this_state ((readyViewer unloadedState)\<lparr>props_id := 1\<rparr>)) \<noteq> []
   \<and> layerCalls (effects (final (updateState exampleEnv unloadedState
        ((readyViewer unloadedState)\<lparr>props_id := 1\<rparr>)))) = [Channel 1]
   \<and> viewerConfigs (this_state (readyViewer unloadedState)) \<noteq> []
   \<and> props_id (readyViewer unloadedState)
        = Min (fst ` set (viewerConfigs (this_state (readyViewer unloadedState))))
   \<and> layerChannel (props_id (readyViewer unloadedState))
        (map fst (viewerConfigs (this_state (readyViewer unloadedState)))) = Channel 0"
proof -
  let ?v1 = "(readyViewer unloadedState)\<lparr>props_id := 1\<rparr>"
  let ?v0 = "readyViewer unloadedState"
  have n1: "viewerConfigs (this_state ?v1) \<noteq> []" and n0: "viewerConfigs (this_state ?v0) \<noteq> []"
    by (simp_all add: readyViewer_def constructor_def unloadedState_def)
  have m: "props_id ?v0 = Min (fst ` set (viewerConfigs (this_state ?v0)))"
    by (simp add: readyViewer_def constructor_def unloadedState_def)
  have e: "effects ?v1 = []" "props_id ?v1 = 1"
    "Min (fst ` set (viewerConfigs (this_state ?v1))) = 0"
    by (simp_all add: readyViewer_def constructor_def unloadedState_def)
  show ?thesis
    using layer_assignment[OF n1, of exampleEnv unloadedState exampleEnv unloadedState]
      layer_assignment[OF n0, of exampleEnv unloadedState exampleEnv unloadedState] n1 n0 m e
    by simp
qed

text \<open>
  The call is made on the camera held when \<open>updateState\<close> starts. For a configured viewer
  that is not of the image-with-intrinsics type, the same call then replaces the camera by
  a newly constructed one (source line 330), which is on the default layer 0.
\<close>

lemma selectCamera_rebuilt:
  assumes "vc_type vc \<noteq> IMAGE_3D"
    and "props_id w \<in> fst ` set (viewerConfigs (this_state w))"
  shows "camera (final (selectCamera env st vc w))
           = new_Camera (PerspectiveCamera 45 1 (1 / 10) 1000)"
  using assms by (simp add: selectCamera_def)

lemma rebuilt_camera_general:
  assumes cfg: "map_of (viewerConfigs (this_state v)) (props_id v) = Some vc"
    and ty: "vc_type vc \<noteq> IMAGE_3D"
    and ret: "updateState env st v = Inr v'"
  shows "camera v' = new_Camera (PerspectiveCamera 45 1 (1 / 10) 1000)
         \<and> layers (camera v') = Channel 0"
proof -
  have mem: "props_id v \<in> fst ` set (viewerConfigs (this_state v))"
    using cfg by (metis map_of_SomeD fst_conv image_eqI)
  have "camera v' = new_Camera (PerspectiveCamera 45 1 (1 / 10) 1000)"
  proof (cases rule: updateState_cases[of v env st])
    case unconfigured
    then show ?thesis using ret by simp
  next
    case (noitem vc')
    then show ?thesis using ret by simp
  next
    case (noimage vc' item w)
    then have "isl (updateState env st v)" by simp
    then show ?thesis using ret by simp
  next
    case (returned vc' item v4)
    let ?w = "emit (enableLayers env (props_id v) (vc_sensor vc) (Object_entries (labels item)))
                (assignLayer (syncDisplay v))"
    have "props_id ?w \<in> fst ` set (viewerConfigs (this_state ?w))" using mem by simp
    then have "camera (final (selectCamera env st vc ?w))
           = new_Camera (PerspectiveCamera 45 1 (1 / 10) 1000)"
      using ty by (rule selectCamera_rebuilt[rotated])
    then show ?thesis using returned cfg ret by simp
  qed
  then show ?thesis by (simp add: new_Camera_def)
qed

text \<open>
  C5. After a state update the viewer's camera should be on the layer id minus the least
  configured id. Viewer 1, a point-cloud viewer configured next to viewer 0, is
  reconciled: the call returns, \<open>layers.set\<close> was handed layer 1, on the camera held at
  entry, and the camera the viewer holds afterwards is a new one on layer 0.
\<close>

theorem rebuilt_camera_on_default_layer:
  "map_of (viewerConfigs unloadedState) 1
     = Some \<lparr>vc_type = POINT_CLOUD, vc_sensor = 1, viewScale = 1\<rparr>
   \<and> \<not> isl (updateState exampleEnv unloadedState
         ((readyViewer unloadedState)\<lparr>props_id := 1\<rparr>))
   \<and> layerChannel 1 (map fst (viewerConfigs unloadedState)) = Channel 1
   \<and> layerCalls (effects (final (updateState exampleEnv unloadedState
        ((readyViewer unloadedState)\<lparr>props_id := 1\<rparr>)))) = [Channel 1]
   \<and> layers (camera (final (updateState exampleEnv unloadedState
        ((readyViewer unloadedState)\<lparr>props_id := 1\<rparr>)))) = Channel 0"
  by (simp add: updateState_def Let_def syncDisplay_def assignLayer_def publishCamera_def
      selectCamera_def readyViewer_def constructor_def loadedState_def unloadedState_def
      exampleEnv_def isCurrentFrameLoaded_def array_at_def emit_def new_Camera_def Generic_def
      layerChannel_def Object_entries_def)

section \<open>Publishing the camera\<close>

text \<open>
  Where \<open>updateState\<close> returns, it publishes the viewer's camera exactly once if the viewer
  is the globally active one and not at all otherwise; a non-active viewer never
  publishes, whether the call returns or faults; the keyboard handlers publish nothing;
  and a keyboard event at a non-active viewer is not forwarded to the delegate.
\<close>

lemma publish_gating:
  "(updateState env st v = Inr v' \<longrightarrow>
      published (effects v')
        = published (effects v) @ (if activeViewerId env = props_id v then [camera v'] else []))
   \<and> (activeViewerId env \<noteq> props_id v \<longrightarrow>
        published (effects (final (updateState env st v))) = published (effects v))
   \<and> published (effects (onKeyDown env e v)) = published (effects v)
   \<and> published (effects (onKeyUp env e v)) = published (effects v)
   \<and> (activeViewerId env \<noteq> props_id v \<longrightarrow> onKeyDown env e v = v \<and> onKeyUp env e v = v)"
proof -
  have a: "updateState env st v = Inr v' \<longrightarrow>
      published (effects v')
        = published (effects v) @ (if activeViewerId env = props_id v then [camera v'] else [])"
    using updateState_published[of env st v] by auto
  have b: "activeViewerId env \<noteq> props_id v \<longrightarrow>
        published (effects (final (updateState env st v))) = published (effects v)"
    using updateState_published[of env st v] by simp
  have c: "activeViewerId env \<noteq> props_id v \<longrightarrow> onKeyDown env e v = v \<and> onKeyUp env e v = v"
    by (simp add: onKeyDown_def onKeyUp_def)
  show ?thesis using a b c key_handlers_published[of env e v] by blast
qed

lemma publish_gating_witness:
  "updateState exampleEnv loadedState (readyViewer loadedState)
     = Inr (projr (updateState exampleEnv loadedState (readyViewer loadedState)))
   \<and> published (effects (projr (updateState exampleEnv loadedState (readyViewer loadedState))))
       = [new_Camera (IntrinsicCamera exampleIntrinsics 640 480)]
   \<and> activeViewerId exampleEnv \<noteq> props_id ((readyViewer loadedState)\<lparr>props_id := 1\<rparr>)
   \<and> published (effects (final (updateState exampleEnv loadedState
        ((readyViewer loadedState)\<lparr>props_id := 1\<rparr>)))) = []
   \<and> onKeyDown exampleEnv \<lparr>key = ''a''\<rparr> ((readyViewer loadedState)\<lparr>props_id := 1\<rparr>)
       = (readyViewer loadedState)\<lparr>props_id := 1\<rparr>"
proof -
  let ?v0 = "readyViewer loadedState"
  let ?v1 = "(readyViewer loadedState)\<lparr>props_id := 1\<rparr>"
  have r: "updateState exampleEnv loadedState ?v0
     = Inr (projr (updateState exampleEnv loadedState ?v0))"
    and c: "camera (projr (updateState exampleEnv loadedState ?v0))
       = new_Camera (IntrinsicCamera exampleIntrinsics 640 480)"
    by (simp_all add: updateState_def Let_def syncDisplay_def assignLayer_def publishCamera_def
      selectCamera_def readyViewer_def constructor_def loadedState_def unloadedState_def
      exampleEnv_def isCurrentFrameLoaded_def array_at_def emit_def Object_entries_def)
  have n: "activeViewerId exampleEnv \<noteq> props_id ?v1"
    and a: "activeViewerId exampleEnv = props_id ?v0"
    and e: "effects ?v0 = []" "effects ?v1 = []"
    by (simp_all add: exampleEnv_def readyViewer_def constructor_def)
  show ?thesis
    using publish_gating[of exampleEnv loadedState ?v0
        "projr (updateState exampleEnv loadedState ?v0)" "\<lparr>key = ''a''\<rparr>"]
      publish_gating[of exampleEnv loadedState ?v1 ?v1 "\<lparr>key = ''a''\<rparr>"]
      r c n a e
    by simp
qed

text \<open>
  C7. At every state reconciliation the globally active viewer should publish its camera
  to the shared registry. The active viewer 0 is reconciled on a snapshot that does not
  configure it: \<open>updateState\<close> faults at the unguarded read of \<open>viewerConfig.sensor\<close>,
  before it reaches \<open>setActiveCamera\<close>, and nothing is published.
\<close>

theorem active_viewer_fault_publishes_nothing:
  "activeViewerId exampleEnv = props_id (readyViewer unconfiguredState)
   \<and> isl (updateState exampleEnv unconfiguredState (readyViewer unconfiguredState))
   \<and> fst (projl (updateState exampleEnv unconfiguredState (readyViewer unconfiguredState)))
       = TypeError
   \<and> published (effects (final (updateState exampleEnv unconfiguredState
         (readyViewer unconfiguredState)))) = []"
  by (simp add: updateState_def Let_def syncDisplay_def assignLayer_def
      readyViewer_def constructor_def unloadedState_def unconfiguredState_def
      exampleEnv_def emit_def)

section \<open>Faults\<close>

text \<open>
  C8. No public operation of the viewer should raise a fault, whatever the snapshot. On a
  snapshot in which the viewer's id is not configured, \<open>updateState\<close>, \<open>renderThree\<close> and
  (once a canvas is attached) \<open>redraw\<close> raise a \<open>TypeError\<close>: each reads
  \<open>viewerConfigs[id].sensor\<close> without a guard, \<open>updateState\<close> thirteen lines before its own
  test that the id is configured.
\<close>

theorem unconfigured_viewer_faults:
  "updateState env st (constructor i d unconfiguredState)
     = Inl (TypeError, assignLayer (syncDisplay (constructor i d unconfiguredState)))
   \<and> renderThree env (constructor i d unconfiguredState)
     = Inl (TypeError, constructor i d unconfiguredState)
   \<and> redraw env ((constructor i d unconfiguredState)\<lparr>canvas := Some c\<rparr>)
     = Inl (TypeError, (constructor i d unconfiguredState)\<lparr>canvas := Some c\<rparr>)"
  by (simp add: updateState_def renderThree_def redraw_def Let_def constructor_def
      unconfiguredState_def)

text \<open>
  What does degrade gracefully: for a configured viewer, \<open>redraw\<close> and \<open>renderThree\<close> never
  fault; without a canvas \<open>redraw\<close> does nothing, without a renderer \<open>renderThree\<close> does
  nothing, and with a renderer and an unloaded frame both clear the framebuffer.
\<close>

lemma configured_render_degrades:
  assumes "map_of (viewerConfigs (this_state v)) (props_id v) = Some vc"
  shows "\<not> isl (redraw env v)" and "\<not> isl (renderThree env v)"
    and "canvas v = None \<Longrightarrow> redraw env v = Inr v"
    and "renderer v = None \<Longrightarrow> renderThree env v = Inr v"
    and "renderer v \<noteq> None \<Longrightarrow> \<not> isCurrentFrameLoaded (this_state v) (vc_sensor vc) \<Longrightarrow>
           renderThree env v = Inr (emit [RendererClear] v)"
    and "canvas v \<noteq> None \<Longrightarrow> renderer v \<noteq> None \<Longrightarrow>
           \<not> isCurrentFrameLoaded (this_state v) (vc_sensor vc) \<Longrightarrow>
           redraw env v = Inr (emit [RendererClear] v)"
proof -
  have u: "map_of (viewerConfigs (this_state (updateRenderer env v))) (props_id (updateRenderer env v))
      = Some vc"
    using assms
    by (simp add: updateRenderer_def Let_def
        split: option.splits ViewerConfigTypeName.splits)
  show "\<not> isl (renderThree env v)" using assms by (simp add: renderThree_def)
  show "\<not> isl (redraw env v)" using assms u
    by (simp add: redraw_def renderThree_def split: option.splits)
  show "canvas v = None \<Longrightarrow> redraw env v = Inr v" by (simp add: redraw_def)
  show "renderer v = None \<Longrightarrow> renderThree env v = Inr v"
    using assms by (simp add: renderThree_def)
  show "renderer v \<noteq> None \<Longrightarrow> \<not> isCurrentFrameLoaded (this_state v) (vc_sensor vc) \<Longrightarrow>
           renderThree env v = Inr (emit [RendererClear] v)"
    using assms by (simp add: renderThree_def)
  show "canvas v \<noteq> None \<Longrightarrow> renderer v \<noteq> None \<Longrightarrow>
           \<not> isCurrentFrameLoaded (this_state v) (vc_sensor vc) \<Longrightarrow>
           redraw env v = Inr (emit [RendererClear] v)"
    using assms by (auto simp add: redraw_def)
qed

section \<open>Hit testing on mouse move\<close>

text \<open>
  The first element of a list sorted by a key is one of the elements and has the least key.
\<close>

lemma sort_key_head_least:
  assumes "sort_key f xs = h # rest"
  shows "h \<in> set xs \<and> (\<forall>j \<in> set xs. f h \<le> f j)"
proof -
  have s: "sorted (map f (h # rest))" using sorted_sort_key[of f xs] assms by simp
  have m: "set (h # rest) = set xs" using set_sort[of f xs] assms by simp
  have "\<forall>j \<in> set (h # rest). f h \<le> f j" using s by auto
  then show ?thesis using m by auto
qed

text \<open>No operation of the viewer changes the raycaster the constructor configured.\<close>

lemma raycaster_unchanged:
  "raycaster (onMouseDown env m v) = raycaster v"
  "raycaster (onMouseUp env m v) = raycaster v"
  "raycaster (onMouseMove env m v) = raycaster v"
  "raycaster (onDoubleClick env m v) = raycaster v"
  "raycaster (onKeyDown env k v) = raycaster v"
  "raycaster (onKeyUp env k v) = raycaster v"
  "raycaster (updateRenderer env v) = raycaster v"
  "raycaster (final (renderThree env v)) = raycaster v"
  "raycaster (final (updateState env st v)) = raycaster v"
  by (simp_all add: onMouseDown_def onMouseUp_def onMouseMove_def onDoubleClick_def
      onKeyDown_def onKeyUp_def updateRenderer_def renderThree_def Let_def
      updateState_final_fields
      split: option.splits ViewerConfigTypeName.splits)

lemma raycaster_redraw: "raycaster (final (redraw env v)) = raycaster v"
  by (simp add: redraw_def raycaster_unchanged split: option.splits)

text \<open>
  C6. The constructor configures the raycaster with near plane 1, far plane 100 and line
  precision 0.02. A mouse move that is not gated (canvas attached, not frozen) forces the
  camera's world-matrix update, then sets the ray from the camera, then intersects the
  shapes the registry holds at this call, and hands the delegate the first intersection,
  which is one of least distance among all intersections found, or no hit when there is
  none.
\<close>

theorem hit_test_on_mouse_move:
  assumes "canvas v = Some c" and "\<not> freeze env"
  shows "raycaster (constructor i d s0) = \<lparr>near = 1, far = 100, linePrecision = 2 / 100\<rparr>
    \<and> (let xy = convertMouseToNDC env (clientX e - rect_left c) (clientY e - rect_top c) c;
            found = concat (map (raycast env (raycaster v) (camera v) xy) (raycastableShapes env));
            hit = (case intersectObjects env (raycaster v) (camera v) xy (raycastableShapes env) of
                     [] \<Rightarrow> None | h # rest \<Rightarrow> Some h);
            call = Handler_onMouseMove (fst xy) (snd xy) hit
        in effects (onMouseMove env e v)
             = effects v
               @ [UpdateMatrixWorld True,
                  SetFromCamera (fst xy) (snd xy) (camera v),
                  IntersectObjects (raycastableShapes env) False,
                  HandlerCall call]
               @ (if handlerResult env call then [StopPropagation] else [])
               @ [OnDrawableUpdate]
           \<and> (hit = None \<longleftrightarrow> found = [])
           \<and> (\<forall>h. hit = Some h \<longrightarrow>
                 h \<in> set found \<and> (\<forall>j \<in> set found. distance h \<le> distance j)))"
proof -
  define xy where "xy = convertMouseToNDC env (clientX e - rect_left c) (clientY e - rect_top c) c"
  define found where
    "found = concat (map (raycast env (raycaster v) (camera v) xy) (raycastableShapes env))"
  define hits where
    "hits = intersectObjects env (raycaster v) (camera v) xy (raycastableShapes env)"
  define hit where "hit = (case hits of [] \<Rightarrow> None | h # rest \<Rightarrow> Some h)"
  define call where "call = Handler_onMouseMove (fst xy) (snd xy) hit"
  have hs: "hits = sort_key distance found"
    by (simp add: hits_def found_def intersectObjects_def)
  have xy': "(fst xy, snd xy) = xy" by simp
  have eff: "effects (onMouseMove env e v)
             = effects v
               @ [UpdateMatrixWorld True,
                  SetFromCamera (fst xy) (snd xy) (camera v),
                  IntersectObjects (raycastableShapes env) False,
                  HandlerCall call]
               @ (if handlerResult env call then [StopPropagation] else [])
               @ [OnDrawableUpdate]"
    using assms
    by (cases hits)
       (simp_all add: onMouseMove_def normalizeCoordinatesToCanvas_def Let_def
          xy_def[symmetric] hits_def[symmetric] hit_def call_def)
  have none: "hit = None \<longleftrightarrow> found = []"
  proof -
    have "hits = [] \<longleftrightarrow> found = []"
      using set_sort[of distance found] hs by (metis set_empty)
    then show ?thesis by (cases hits) (simp_all add: hit_def)
  qed
  have least: "\<forall>h. hit = Some h \<longrightarrow>
                 h \<in> set found \<and> (\<forall>j \<in> set found. distance h \<le> distance j)"
  proof (intro allI impI)
    fix h assume "hit = Some h"
    then obtain rest where "hits = h # rest" by (cases hits) (simp_all add: hit_def)
    then show "h \<in> set found \<and> (\<forall>j \<in> set found. distance h \<le> distance j)"
      using sort_key_head_least[of distance found h rest] hs by simp
  qed
  have cfg: "raycaster (constructor i d s0) = \<lparr>near = 1, far = 100, linePrecision = 2 / 100\<rparr>"
    by (simp add: constructor_def)
  show ?thesis
    using cfg eff none least
    unfolding Let_def xy_def found_def hits_def hit_def call_def
    by blast
qed

theorem hit_test_witness:
  "canvas (readyViewer loadedState) = Some exampleCanvas
   \<and> \<not> freeze exampleEnv
   \<and> effects (onMouseMove exampleEnv \<lparr>clientX = 320, clientY = 240\<rparr> (readyViewer loadedState))
       = [UpdateMatrixWorld True,
          SetFromCamera 0 0 (camera (readyViewer loadedState)),
          IntersectObjects [10, 11, 12] False,
          HandlerCall (Handler_onMouseMove 0 0 (Some \<lparr>distance = 2, hit_object = 11\<rparr>)),
          OnDrawableUpdate]"
proof -
  let ?v = "readyViewer loadedState"
  have c: "canvas ?v = Some exampleCanvas" by (simp add: readyViewer_def)
  have f: "\<not> freeze exampleEnv" by (simp add: exampleEnv_def)
  have xy: "convertMouseToNDC exampleEnv (320 - rect_left exampleCanvas)
              (240 - rect_top exampleCanvas) exampleCanvas = (0, 0)"
    by (simp add: exampleEnv_def exampleCanvas_def)
  have hits: "intersectObjects exampleEnv (raycaster ?v) (camera ?v) (0, 0)
                (raycastableShapes exampleEnv)
              = [\<lparr>distance = 2, hit_object = 11\<rparr>, \<lparr>distance = 5, hit_object = 10\<rparr>,
                 \<lparr>distance = 8, hit_object = 12\<rparr>]"
    by (simp add: intersectObjects_def exampleEnv_def)
  have r: "\<not> handlerResult exampleEnv c'" for c' by (simp add: exampleEnv_def)
  have s: "raycastableShapes exampleEnv = [10, 11, 12]" by (simp add: exampleEnv_def)
  have e: "effects ?v = []" by (simp add: readyViewer_def constructor_def)
  show ?thesis
    using hit_test_on_mouse_move[OF c f, of 0 None loadedState "\<lparr>clientX = 320, clientY = 240\<rparr>"]
      c f xy hits r s e
    by (simp add: Let_def)
qed

section \<open>Listener lifecycle\<close>

text \<open>
  One mount followed by one unmount of an instance that was not registered leaves the
  document's listeners and the channel's subscribers as they were and makes the eight
  calls of \<open>cycleCalls\<close>.
\<close>

lemma one_cycle:
  assumes "(''keydown'', KeyDownListener i) \<notin> set (documentListeners h)"
    and "(''keyup'', KeyUpListener i) \<notin> set (documentListeners h)"
    and "i \<notin> set (subscribers h)"
  shows "componentWillUnmount i (componentDidMount i h) = h\<lparr>calls := calls h @ cycleCalls i\<rparr>"
  using assms
  by (simp add: componentWillUnmount_def componentDidMount_def subscribe_def unsubscribe_def
      addEventListener_def removeEventListener_def cycleCalls_def remove1_append)

lemma mounted:
  assumes "(''keydown'', KeyDownListener i) \<notin> set (documentListeners h)"
    and "(''keyup'', KeyUpListener i) \<notin> set (documentListeners h)"
  shows "documentListeners (componentDidMount i h)
           = documentListeners h @ [(''keydown'', KeyDownListener i), (''keyup'', KeyUpListener i)]"
    and "subscribers (componentDidMount i h) = subscribers h @ [i]"
  using assms
  by (simp_all add: componentDidMount_def subscribe_def addEventListener_def)

lemma cycles_restore:
  assumes "(''keydown'', KeyDownListener i) \<notin> set (documentListeners h)"
    and "(''keyup'', KeyUpListener i) \<notin> set (documentListeners h)"
    and "i \<notin> set (subscribers h)"
  shows "mountUnmountCycles n i h = h\<lparr>calls := calls h @ concat (replicate n (cycleCalls i))\<rparr>"
  using assms
proof (induction n arbitrary: h)
  case 0
  then show ?case by simp
next
  case (Suc n)
  let ?h = "h\<lparr>calls := calls h @ cycleCalls i\<rparr>"
  have "mountUnmountCycles (Suc n) i h = mountUnmountCycles n i ?h"
    using one_cycle[OF Suc.prems] by simp
  also have "\<dots> = ?h\<lparr>calls := calls ?h @ concat (replicate n (cycleCalls i))\<rparr>"
    using Suc.prems by (intro Suc.IH) simp_all
  finally show ?case by simp
qed

text \<open>
  C9. For every \<open>n\<close>, \<open>n\<close> mount/unmount cycles of a viewer instance that is not registered
  at the start make exactly \<open>n\<close> times the calls of one cycle (add key-down listener, add
  key-up listener, subscribe; remove key-down listener, remove key-up listener,
  unsubscribe), leave the document's listeners and the channel's subscribers as they were
  (no leak), and at the next mount the instance is registered exactly once (no double
  registration).
\<close>

theorem listener_lifecycle:
  assumes "(''keydown'', KeyDownListener i) \<notin> set (documentListeners h)"
    and "(''keyup'', KeyUpListener i) \<notin> set (documentListeners h)"
    and "i \<notin> set (subscribers h)"
  shows "documentListeners (mountUnmountCycles n i h) = documentListeners h
       \<and> subscribers (mountUnmountCycles n i h) = subscribers h
       \<and> calls (mountUnmountCycles n i h) = calls h @ concat (replicate n (cycleCalls i))
       \<and> documentListeners (componentDidMount i (mountUnmountCycles n i h))
           = documentListeners h @ [(''keydown'', KeyDownListener i), (''keyup'', KeyUpListener i)]
       \<and> subscribers (componentDidMount i (mountUnmountCycles n i h)) = subscribers h @ [i]"
proof -
  have r: "mountUnmountCycles n i h = h\<lparr>calls := calls h @ concat (replicate n (cycleCalls i))\<rparr>"
    using assms by (rule cycles_restore)
  have m1: "documentListeners (componentDidMount i (mountUnmountCycles n i h))
           = documentListeners (mountUnmountCycles n i h)
             @ [(''keydown'', KeyDownListener i), (''keyup'', KeyUpListener i)]"
    and m2: "subscribers (componentDidMount i (mountUnmountCycles n i h))
           = subscribers (mountUnmountCycles n i h) @ [i]"
    using assms r by (simp_all add: mounted)
  show ?thesis using r m1 m2 by simp
qed

theorem listener_lifecycle_witness:
  "(''keydown'', KeyDownListener 0) \<notin> set (documentListeners \<lparr>documentListeners = [], subscribers = [], calls = []\<rparr>)
   \<and> (''keyup'', KeyUpListener 0) \<notin> set (documentListeners \<lparr>documentListeners = [], subscribers = [], calls = []\<rparr>)
   \<and> 0 \<notin> set (subscribers \<lparr>documentListeners = [], subscribers = [], calls = []\<rparr>)
   \<and> documentListeners (mountUnmountCycles 2 0 \<lparr>documentListeners = [], subscribers = [], calls = []\<rparr>) = []
   \<and> subscribers (mountUnmountCycles 2 0 \<lparr>documentListeners = [], subscribers = [], calls = []\<rparr>) = []
   \<and> calls (mountUnmountCycles 2 0 \<lparr>documentListeners = [], subscribers = [], calls = []\<rparr>)
       = cycleCalls 0 @ cycleCalls 0"
proof -
  let ?h = "\<lparr>documentListeners = [], subscribers = [], calls = []\<rparr>"
  have a: "(''keydown'', KeyDownListener 0) \<notin> set (documentListeners ?h)"
    and b: "(''keyup'', KeyUpListener 0) \<notin> set (documentListeners ?h)"
    and c: "0 \<notin> set (subscribers ?h)"
    by simp_all
  have two: "concat (replicate 2 (cycleCalls 0)) = cycleCalls 0 @ cycleCalls 0"
    by (simp add: numeral_2_eq_2)
  show ?thesis using listener_lifecycle[OF a b c, of 2] two by simp
qed

end
